theory Spec2Isabelle
  imports Main "HOL-Library.Sublist"
begin

section \<open>The tox-pdm plugin for tox 3 (\<^verbatim>\<open>src/tox_pdm/plugin3.py\<close>)\<close>

text \<open>
  The plugin is a set of hook functions that the host runner (tox) calls. Each hook
  reads and mutates objects of the host (the environment configuration, the session,
  the class attribute \<^verbatim>\<open>VirtualEnv.getcommandpath\<close>), touches the file system and
  calls the host and the external tool. The embedding threads all of that through an
  explicit \<open>state\<close>; a hook is a function from the state to a result and the new state.
  An exception is a result \<open>Inl e\<close>; the state that comes with it holds every mutation
  made before the exception, as in Python.
\<close>

subsection \<open>Paths, argument vectors, errors\<close>

text \<open>
  A path object is the list of its components: \<^verbatim>\<open>os.path.join(p, name)\<close> and
  \<^verbatim>\<open>p.join(name)\<close> with a single relative component append it,
  \<^verbatim>\<open>os.path.dirname(p)\<close> drops the last one.
  The lists that the plugin builds hold strings and path objects side by side
  (\<^verbatim>\<open>["-d", target_dir]\<close>), hence the type \<open>arg\<close>.
\<close>

type_synonym path = "string list"

datatype arg = Str string | Path path

datatype error =
    TypeError
  | StopIteration
  | AttributeError
  | FileNotFoundError
  | NotADirectoryError
  | FileExistsError
  | ShutilError
  | HostError string

definition os_path_join :: "path \<Rightarrow> string \<Rightarrow> path" where
  "os_path_join p name = p @ [name]"

definition os_path_dirname :: "path \<Rightarrow> path" where
  "os_path_dirname p = butlast p"

subsection \<open>The file system\<close>

text \<open>
  A file system lists the paths that exist, each with its node: a plain file with its
  content, or a directory. The entries of a directory are the paths one component
  longer; \<^verbatim>\<open>os.listdir\<close> gives their names in the order of the list.
\<close>

datatype node = File string | Dir

type_synonym filesystem = "(path \<times> node) list"

definition path_exists :: "filesystem \<Rightarrow> path \<Rightarrow> bool" where
  "path_exists fsys p = (map_of fsys p \<noteq> None)"

definition path_isdir :: "filesystem \<Rightarrow> path \<Rightarrow> bool" where
  "path_isdir fsys p = (map_of fsys p = Some Dir)"

definition entries :: "filesystem \<Rightarrow> path \<Rightarrow> string list" where
  "entries fsys d = map (\<lambda>(q, n). last q) (filter (\<lambda>(q, n). q \<noteq> [] \<and> butlast q = d) fsys)"

definition os_listdir :: "filesystem \<Rightarrow> path \<Rightarrow> error + string list" where
  "os_listdir fsys d =
     (case map_of fsys d of
        None \<Rightarrow> Inl FileNotFoundError
      | Some (File c) \<Rightarrow> Inl NotADirectoryError
      | Some Dir \<Rightarrow> Inr (entries fsys d))"

text \<open>
  \<^verbatim>\<open>os.rename(src, dst)\<close> once it is known to succeed: \<open>src\<close> with everything below it
  is re-rooted at \<open>dst\<close>, and replaces what the list had at \<open>dst\<close> or below it (a plain
  file, when there is one).
\<close>

definition os_rename :: "path \<Rightarrow> path \<Rightarrow> filesystem \<Rightarrow> filesystem" where
  "os_rename src dst fsys =
     map (\<lambda>(q, n). if prefix src q then (dst @ drop (length src) q, n) else (q, n))
       (filter (\<lambda>(q, n). prefix src q \<or> \<not> prefix dst q) fsys)"

text \<open>
  \<^verbatim>\<open>shutil.move(src, dst)\<close>. When \<open>dst\<close> is an existing directory the source goes into
  it, under its own name, unless that name is taken there (\<^verbatim>\<open>shutil.Error\<close>) or \<open>src\<close> and
  \<open>dst\<close> are the same file (nothing happens). Otherwise the source goes to \<open>dst\<close> itself.
  \<open>move_to\<close> is the second half, \<^verbatim>\<open>os.rename(src, real_dst)\<close> and what \<^verbatim>\<open>shutil.move\<close> does
  when that fails:
  \<^item> a plain file replaces a plain file at the destination; the directory that is to
    hold it must exist;
  \<^item> a directory that cannot be renamed is copied with \<^verbatim>\<open>copytree\<close>, which creates the
    missing directories above the destination, and then removed; it cannot go into
    itself (\<^verbatim>\<open>shutil.Error\<close>) nor over something that exists.
\<close>

definition is_file :: "filesystem \<Rightarrow> path \<Rightarrow> bool" where
  "is_file fsys p = (case map_of fsys p of Some (File c) \<Rightarrow> True | _ \<Rightarrow> False)"

definition missing_dirs :: "filesystem \<Rightarrow> path \<Rightarrow> filesystem" where
  "missing_dirs fsys p =
     map (\<lambda>a. (a, Dir)) (filter (\<lambda>a. \<not> path_exists fsys a) (prefixes (os_path_dirname p)))"

definition move_to :: "filesystem \<Rightarrow> path \<Rightarrow> path \<Rightarrow> error + filesystem" where
  "move_to fsys src real_dst =
     (case map_of fsys src of
        None \<Rightarrow> Inl FileNotFoundError
      | Some (File c) \<Rightarrow>
          if src = real_dst then Inr fsys
          else if \<not> path_isdir fsys (os_path_dirname real_dst) then Inl FileNotFoundError
          else if path_isdir fsys real_dst then Inl FileExistsError
          else Inr (os_rename src real_dst fsys)
      | Some Dir \<Rightarrow>
          if src = real_dst then Inr fsys
          else if prefix src real_dst then Inl ShutilError
          else if path_exists fsys real_dst then Inl FileExistsError
          else if list_ex (is_file fsys) (prefixes (os_path_dirname real_dst))
            then Inl NotADirectoryError
          else Inr (os_rename src real_dst fsys @ missing_dirs fsys real_dst))"

definition shutil_move :: "filesystem \<Rightarrow> path \<Rightarrow> path \<Rightarrow> error + filesystem" where
  "shutil_move fsys src dst =
     (if path_isdir fsys dst then
        if src = dst then Inr fsys
        else if path_exists fsys (os_path_join dst (last src)) then Inl ShutilError
        else move_to fsys src (os_path_join dst (last src))
      else move_to fsys src dst)"


subsection \<open>Objects of the host\<close>

text \<open>
  The fields that the plugin only reads: \<open>pdm\<close> is \<^verbatim>\<open>config.option.pdm\<close>, the other
  fields of \<open>config\<close> are the attributes of the same name; a \<open>venv\<close> has its \<open>path\<close> and
  its \<open>envconfig\<close>; \<^verbatim>\<open>session.config\<close> is \<open>session_config\<close>.
\<close>

record config =
  pdm :: string
  toxinidir :: path
  toxworkdir :: path
  isolated_build_env :: string
  temp_dir :: path
  skipsdist :: bool

record envconfig =
  config :: config
  skip_install :: bool

record venv =
  path :: path
  envconfig :: envconfig

record session =
  session_config :: config

text \<open>
  What the plugin reports and asks the host to run, in order: \<^verbatim>\<open>reporter.info(msg)\<close>,
  \<^verbatim>\<open>action.setactivity(name, msg)\<close>, \<^verbatim>\<open>venv._pcall(args, cwd=cwd, venv=False, action=action)\<close>
  and \<^verbatim>\<open>venv._install(deps, action=action)\<close>. An action is known by its name.
\<close>

datatype message = Groups "string list" | Text string | Location path

datatype event =
    Info string
  | SetActivity string string message
  | Pcall "arg list" path string
  | Install "string list" string

text \<open>
  \<^verbatim>\<open>VirtualEnv.getcommandpath(self, cmd)\<close>, a class attribute: it takes the environment
  and a command name.
\<close>

type_synonym resolver = "venv \<Rightarrow> string \<Rightarrow> error + string"

text \<open>
  The mutable state: the file system, the class attribute, the three attributes that the
  hooks mutate in place (\<^verbatim>\<open>venv.envconfig.groups\<close>, which may be unset,
  \<^verbatim>\<open>venv.envconfig.install_command\<close> and \<^verbatim>\<open>venv.envconfig.list_dependencies_command\<close>),
  the attributes \<^verbatim>\<open>session.package\<close> and \<^verbatim>\<open>session.dist\<close> (\<open>None\<close> while the session
  has no such attribute), and the events so far.
\<close>

record state =
  fs :: filesystem
  getcommandpath :: resolver
  groups :: "string list option"
  install_command :: "arg list"
  list_dependencies_command :: "arg list"
  package :: "path option"
  dist :: "path option"
  events :: "event list"

text \<open>
  The collaborators that are not part of \<^verbatim>\<open>plugin3.py\<close>, as parameters. Those that work
  on the file system take it and return it, with an error or a value.
  \<^item> \<open>os_name\<close> is \<^verbatim>\<open>os.name\<close>, \<open>fspath p\<close> is \<^verbatim>\<open>str(p)\<close>;
  \<^item> \<open>clone_pdm_files\<close> and \<open>get_env_lib_path\<close> are the helpers of \<^verbatim>\<open>tox_pdm/utils.py\<close>;
  \<^item> \<open>getsupportedinterpreter\<close>, \<open>host_pcall\<close> (the process call behind \<^verbatim>\<open>venv._pcall\<close>,
    which resolves the command with the current \<^verbatim>\<open>getcommandpath\<close>),
    \<open>get_resolved_dependencies\<close> and \<open>host_install\<close> (behind \<^verbatim>\<open>venv._install\<close>) are
    methods of \<^verbatim>\<open>VirtualEnv\<close>;
  \<^item> \<open>ensure_empty_dir\<close>, \<open>create_session_view\<close>, \<open>lock_acquire\<close> and \<open>lock_release\<close>
    (entering and leaving \<^verbatim>\<open>hold_lock\<close>) are functions of tox;
  \<^item> \<open>visit d pat\<close> is the sequence that \<^verbatim>\<open>d.visit(pat)\<close> yields.
\<close>

record host =
  os_name :: string
  fspath :: "path \<Rightarrow> string"
  clone_pdm_files :: "string \<Rightarrow> string \<Rightarrow> filesystem \<Rightarrow> (error + unit) \<times> filesystem"
  get_env_lib_path :: "string \<Rightarrow> path \<Rightarrow> path"
  getsupportedinterpreter :: "venv \<Rightarrow> error + string"
  host_pcall :: "resolver \<Rightarrow> venv \<Rightarrow> arg list \<Rightarrow> path \<Rightarrow> filesystem \<Rightarrow> (error + unit) \<times> filesystem"
  get_resolved_dependencies :: "venv \<Rightarrow> error + string list"
  host_install :: "venv \<Rightarrow> string list \<Rightarrow> filesystem \<Rightarrow> (error + unit) \<times> filesystem"
  ensure_empty_dir :: "path \<Rightarrow> filesystem \<Rightarrow> (error + unit) \<times> filesystem"
  create_session_view :: "path \<Rightarrow> path \<Rightarrow> filesystem \<Rightarrow> (error + path) \<times> filesystem"
  lock_acquire :: "path \<Rightarrow> filesystem \<Rightarrow> (error + unit) \<times> filesystem"
  lock_release :: "path \<Rightarrow> filesystem \<Rightarrow> filesystem"
  visit :: "path \<Rightarrow> string \<Rightarrow> filesystem \<Rightarrow> error + path list"

subsection \<open>Hooks as state transformers\<close>

type_synonym 'a hook = "state \<Rightarrow> (error + 'a) \<times> state"

definition ret :: "'a \<Rightarrow> 'a hook" where
  "ret x = (\<lambda>s. (Inr x, s))"

definition raise :: "error \<Rightarrow> 'a hook" where
  "raise e = (\<lambda>s. (Inl e, s))"

definition and_then :: "'a hook \<Rightarrow> ('a \<Rightarrow> 'b hook) \<Rightarrow> 'b hook" where
  "and_then m f = (\<lambda>s. case m s of (Inl e, s') \<Rightarrow> (Inl e, s') | (Inr x, s') \<Rightarrow> f x s')"

definition lift :: "error + 'a \<Rightarrow> 'a hook" where
  "lift r = (\<lambda>s. (r, s))"

definition emit :: "event \<Rightarrow> unit hook" where
  "emit ev = (\<lambda>s. (Inr (), s\<lparr>events := events s @ [ev]\<rparr>))"

definition on_fs :: "(filesystem \<Rightarrow> (error + 'a) \<times> filesystem) \<Rightarrow> 'a hook" where
  "on_fs f = (\<lambda>s. case f (fs s) of (r, fsys) \<Rightarrow> (r, s\<lparr>fs := fsys\<rparr>))"

text \<open>The body of a \<^verbatim>\<open>with\<close> statement: leaving it runs also when the body raised.\<close>

definition ensuring :: "'a hook \<Rightarrow> (state \<Rightarrow> state) \<Rightarrow> 'a hook" where
  "ensuring m leave = (\<lambda>s. case m s of (r, s') \<Rightarrow> (r, leave s'))"

definition pcall :: "host \<Rightarrow> venv \<Rightarrow> arg list \<Rightarrow> path \<Rightarrow> string \<Rightarrow> unit hook" where
  "pcall h v args cwd action =
     and_then (emit (Pcall args cwd action))
       (\<lambda>_ s. on_fs (host_pcall h (getcommandpath s) v args cwd) s)"

definition install :: "host \<Rightarrow> venv \<Rightarrow> string list \<Rightarrow> string \<Rightarrow> unit hook" where
  "install h v deps action =
     and_then (emit (Install deps action)) (\<lambda>_. on_fs (host_install h v deps))"

subsection \<open>\<^verbatim>\<open>tox_testenv_create\<close>\<close>

definition patch_getcommandpath :: "string \<Rightarrow> resolver \<Rightarrow> resolver" where
  "patch_getcommandpath config_interpreter getcommandpath' =
     (\<lambda>self cmd. if cmd = ''python'' then Inr config_interpreter else getcommandpath' self cmd)"

definition tox_testenv_create :: "host \<Rightarrow> venv \<Rightarrow> string \<Rightarrow> bool hook" where
  "tox_testenv_create h v action =
     and_then (on_fs (clone_pdm_files h (fspath h (path v))
                        (fspath h (toxinidir (config (envconfig v)))))) (\<lambda>_.
     and_then (lift (getsupportedinterpreter h v)) (\<lambda>config_interpreter.
     and_then (\<lambda>s. (Inr (), s\<lparr>getcommandpath :=
                        patch_getcommandpath config_interpreter (getcommandpath s)\<rparr>)) (\<lambda>_.
     and_then (pcall h v [Str (pdm (config (envconfig v))), Str ''use'', Str ''-f'',
                          Str config_interpreter] (path v) action) (\<lambda>_.
     ret True))))"

subsection \<open>\<^verbatim>\<open>acquire_package\<close> and \<^verbatim>\<open>get_package\<close>\<close>

text \<open>\<^verbatim>\<open>next(it)\<close> on the sequence an iterator yields.\<close>

definition next_of :: "error + 'a list \<Rightarrow> error + 'a" where
  "next_of it = (case it of Inl e \<Rightarrow> Inl e | Inr [] \<Rightarrow> Inl StopIteration | Inr (x # xs) \<Rightarrow> Inr x)"

definition acquire_package :: "host \<Rightarrow> config \<Rightarrow> venv \<Rightarrow> path hook" where
  "acquire_package h cfg v =
     (let target_dir = toxworkdir cfg @ [isolated_build_env cfg];
          args = [Str (pdm (config (envconfig v))), Str ''build'', Str ''--no-wheel'', Str ''-d'',
                  Path target_dir]
      in
        and_then (on_fs (ensure_empty_dir h target_dir)) (\<lambda>_.
        and_then (tox_testenv_create h v ''buildpkg'') (\<lambda>_.
        and_then (pcall h v args (toxinidir (config (envconfig v))) ''buildpkg'') (\<lambda>_.
        and_then (\<lambda>s. (next_of (visit h target_dir ''*.tar.gz'' (fs s)), s)) (\<lambda>p.
        and_then (emit (SetActivity ''buildpkg'' ''buildpkg'' (Location p))) (\<lambda>_.
        ret p))))))"

definition get_package :: "host \<Rightarrow> session \<Rightarrow> venv \<Rightarrow> (path \<times> path) option hook" where
  "get_package h sess v =
     (let cfg = session_config sess in
      if skipsdist cfg then
        and_then (emit (Info ''skipping sdist step'')) (\<lambda>_. ret None)
      else
        (let lock_file = toxworkdir (session_config sess)
                           @ [isolated_build_env (session_config sess) @ ''.lock'']
         in
           and_then (on_fs (lock_acquire h lock_file)) (\<lambda>_.
           ensuring
             (and_then (acquire_package h cfg v) (\<lambda>package'.
              and_then (on_fs (create_session_view h package' (temp_dir cfg))) (\<lambda>session_package.
              ret (Some (session_package, package')))))
             (\<lambda>s. s\<lparr>fs := lock_release h lock_file (fs s)\<rparr>))))"

subsection \<open>\<^verbatim>\<open>tox_package\<close> and \<^verbatim>\<open>tox_runenvreport\<close>\<close>

text \<open>
  The loop \<^verbatim>\<open>for i, arg in enumerate(command): if arg == "python": command[i] = venv.getsupportedinterpreter()\<close>.
  It asks for the interpreter at each occurrence; when that raises, the list is as far as
  the loop got.
\<close>

fun patch_python :: "error + string \<Rightarrow> arg list \<Rightarrow> (error + unit) \<times> arg list" where
  "patch_python interp [] = (Inr (), [])"
| "patch_python interp (a # as) =
     (if a = Str ''python'' then
        (case interp of
           Inl e \<Rightarrow> (Inl e, a # as)
         | Inr p \<Rightarrow> (case patch_python interp as of (r, as') \<Rightarrow> (r, Str p # as')))
      else (case patch_python interp as of (r, as') \<Rightarrow> (r, a # as')))"

definition tox_package :: "host \<Rightarrow> session \<Rightarrow> venv \<Rightarrow> path hook" where
  "tox_package h sess v =
     and_then (on_fs (clone_pdm_files h (fspath h (path v))
                        (fspath h (toxinidir (config (envconfig v)))))) (\<lambda>_.
     and_then (\<lambda>s. if package s = None then
                      and_then (get_package h sess v) (\<lambda>r.
                        case r of
                          None \<Rightarrow> raise TypeError
                        | Some (session_package, package') \<Rightarrow>
                            (\<lambda>s. (Inr (), s\<lparr>package := Some session_package,
                                             dist := Some package'\<rparr>))) s
                    else ret () s) (\<lambda>_.
     and_then (\<lambda>s. case patch_python (getsupportedinterpreter h v) (install_command s) of
                      (r, cmd) \<Rightarrow> (r, s\<lparr>install_command := cmd\<rparr>)) (\<lambda>_.
     and_then (\<lambda>s. (Inr (), s\<lparr>install_command := install_command s
                        @ [Str ''-t'',
                           Path (get_env_lib_path h (pdm (config (envconfig v))) (path v))]\<rparr>)) (\<lambda>_.
     (\<lambda>s. case package s of None \<Rightarrow> (Inl AttributeError, s) | Some p \<Rightarrow> (Inr p, s))))))"

definition tox_runenvreport :: "host \<Rightarrow> venv \<Rightarrow> string \<Rightarrow> unit hook" where
  "tox_runenvreport h v action =
     and_then (\<lambda>s. case patch_python (getsupportedinterpreter h v) (list_dependencies_command s) of
                      (r, cmd) \<Rightarrow> (r, s\<lparr>list_dependencies_command := cmd\<rparr>)) (\<lambda>_.
     (\<lambda>s. (Inr (), s\<lparr>list_dependencies_command := list_dependencies_command s
               @ [Str ''--path'',
                  Path (get_env_lib_path h (pdm (config (envconfig v))) (path v))]\<rparr>)))"

subsection \<open>\<^verbatim>\<open>tox_testenv_install_deps\<close>\<close>

text \<open>The loop \<^verbatim>\<open>for group in groups: args.extend(["--group", group])\<close>.\<close>

fun extend_groups :: "arg list \<Rightarrow> string list \<Rightarrow> arg list" where
  "extend_groups args [] = args"
| "extend_groups args (g # gs) = extend_groups (args @ [Str ''--group'', Str g]) gs"

text \<open>
  Lines 112 to 128. \<open>grps\<close> is \<^verbatim>\<open>venv.envconfig.groups or []\<close>: the stored list itself when
  it is set and not empty, so that \<^verbatim>\<open>groups.remove("default")\<close>, which deletes the first
  occurrence, changes the stored list.
\<close>

definition pdm_install :: "host \<Rightarrow> venv \<Rightarrow> string \<Rightarrow> unit hook" where
  "pdm_install h v action = (\<lambda>s.
     let grps = (case groups s of None \<Rightarrow> [] | Some g \<Rightarrow> g) in
     if \<not> skip_install (envconfig v) \<or> grps \<noteq> [] then
       (and_then (emit (SetActivity action ''pdminstall'' (Groups grps))) (\<lambda>_.
        let args = [Str (pdm (config (envconfig v))), Str ''install'', Str ''-p'',
                    Str (fspath h (path v))]
        in
          if ''default'' \<in> set grps then
            and_then (\<lambda>s. (Inr (), s\<lparr>groups := Some (remove1 ''default'' grps)\<rparr>)) (\<lambda>_.
            pcall h v (extend_groups args (remove1 ''default'' grps) @ [Str ''--no-self''])
              (toxinidir (config (envconfig v))) action)
          else if skip_install (envconfig v) then
            pcall h v (extend_groups (args @ [Str ''--no-default'']) grps @ [Str ''--no-self''])
              (toxinidir (config (envconfig v))) action
          else
            pcall h v (extend_groups args grps @ [Str ''--no-self''])
              (toxinidir (config (envconfig v))) action)) s
     else ret () s)"

text \<open>\<^verbatim>\<open>", ".join(map(str, deps))\<close>\<close>

fun join_with :: "string \<Rightarrow> string list \<Rightarrow> string" where
  "join_with sep [] = []"
| "join_with sep [x] = x"
| "join_with sep (x # y # ys) = x @ sep @ join_with sep (y # ys)"

text \<open>Lines 130 to 134.\<close>

definition install_resolved :: "host \<Rightarrow> venv \<Rightarrow> string \<Rightarrow> unit hook" where
  "install_resolved h v action =
     and_then (lift (get_resolved_dependencies h v)) (\<lambda>deps.
       if deps \<noteq> [] then
         and_then (emit (SetActivity action ''installdeps'' (Text (join_with '', '' deps)))) (\<lambda>_.
         install h v deps action)
       else ret ())"

text \<open>The loop of lines 143 to 145; what was moved before an error stays moved.\<close>

fun move_items :: "path \<Rightarrow> path \<Rightarrow> string list \<Rightarrow> filesystem \<Rightarrow> (error + unit) \<times> filesystem" where
  "move_items bin_dir scripts_dir [] fsys = (Inr (), fsys)"
| "move_items bin_dir scripts_dir (item # items) fsys =
     (case shutil_move fsys (os_path_join bin_dir item) (os_path_join scripts_dir item) of
        Inl e \<Rightarrow> (Inl e, fsys)
      | Inr fsys' \<Rightarrow> move_items bin_dir scripts_dir items fsys')"

text \<open>Lines 136 to 145, on the file system.\<close>

definition relocate_scripts :: "string \<Rightarrow> path \<Rightarrow> filesystem \<Rightarrow> (error + unit) \<times> filesystem" where
  "relocate_scripts os lib_path fsys =
     (let bin_dir = os_path_join lib_path ''bin'';
          scripts_dir = os_path_join (os_path_dirname lib_path)
                          (if os = ''nt'' then ''Scripts'' else ''bin'')
      in
        if path_exists fsys bin_dir then
          (case os_listdir fsys bin_dir of
             Inl e \<Rightarrow> (Inl e, fsys)
           | Inr items \<Rightarrow> move_items bin_dir scripts_dir items fsys)
        else (Inr (), fsys))"

definition tox_testenv_install_deps :: "host \<Rightarrow> venv \<Rightarrow> string \<Rightarrow> bool hook" where
  "tox_testenv_install_deps h v action =
     and_then (pdm_install h v action) (\<lambda>_.
     and_then (install_resolved h v action) (\<lambda>_.
     and_then (on_fs (relocate_scripts (os_name h)
                        (get_env_lib_path h (pdm (config (envconfig v))) (path v)))) (\<lambda>_.
     ret True)))"

subsection \<open>Observations and repeated invocation\<close>

text \<open>The argument vectors of the process calls among the events, in order.\<close>

fun pcalls :: "event list \<Rightarrow> arg list list" where
  "pcalls [] = []"
| "pcalls (Pcall args cwd action # evs) = args # pcalls evs"
| "pcalls (ev # evs) = pcalls evs"

text \<open>The host invoking a hook \<open>n\<close> times in a row; it stops at the first exception.\<close>

fun invoke_times :: "nat \<Rightarrow> 'a hook \<Rightarrow> unit hook" where
  "invoke_times 0 m = ret ()"
| "invoke_times (Suc n) m = and_then m (\<lambda>_. invoke_times n m)"

subsection \<open>A concrete host, for running the hooks\<close>

text \<open>
  Three functions of the host as tox and py.path have them.
  \<^item> \<^verbatim>\<open>fnmatch\<close> for the patterns used here: a leading \<^verbatim>\<open>*\<close> and literal text.
  \<^item> \<^verbatim>\<open>d.visit(pat)\<close> lists \<open>d\<close>, which raises \<^verbatim>\<open>py.error.ENOENT\<close> when \<open>d\<close> does not exist,
    and yields the paths below \<open>d\<close> whose name matches.
  \<^item> \<^verbatim>\<open>ensure_empty_dir(d)\<close> of \<^verbatim>\<open>tox.util.path\<close>: when \<open>d\<close> exists it is removed with all
    it holds and created again; when it does not exist nothing is done.
\<close>

definition fnmatch :: "string \<Rightarrow> string \<Rightarrow> bool" where
  "fnmatch pat name = (case pat of [] \<Rightarrow> name = [] | c # rest \<Rightarrow>
                         if c = CHR ''*'' then suffix rest name else pat = name)"

definition py_visit :: "path \<Rightarrow> string \<Rightarrow> filesystem \<Rightarrow> error + path list" where
  "py_visit d pat fsys =
     (case map_of fsys d of
        None \<Rightarrow> Inl (HostError ''py.error.ENOENT'')
      | Some (File c) \<Rightarrow> Inl (HostError ''py.error.ENOTDIR'')
      | Some Dir \<Rightarrow>
          Inr (filter (\<lambda>q. strict_prefix d q \<and> fnmatch pat (last q)) (map fst fsys)))"

definition tox_ensure_empty_dir :: "path \<Rightarrow> filesystem \<Rightarrow> (error + unit) \<times> filesystem" where
  "tox_ensure_empty_dir d fsys =
     (if path_exists fsys d
      then (Inr (), filter (\<lambda>(q, n). \<not> prefix d q) fsys @ [(d, Dir)])
      else (Inr (), fsys))"

text \<open>
  A host whose calls all succeed: cloning and installing leave the file system alone,
  and the external tool's \<^verbatim>\<open>build\<close> creates the directory it is given, when it is not
  there, and writes one source archive into it.
\<close>

definition example_host :: host where
  "example_host =
     \<lparr> os_name = ''posix'',
       fspath = (\<lambda>p. concat (map (\<lambda>c. ''/'' @ c) p)),
       clone_pdm_files = (\<lambda>env_path root fsys. (Inr (), fsys)),
       get_env_lib_path = (\<lambda>executable p. p @ [''__pypackages__'', ''3.9'', ''lib'']),
       getsupportedinterpreter = (\<lambda>v. Inr ''/usr/bin/python3.9''),
       host_pcall = (\<lambda>resolve v args cwd fsys.
          (Inr (),
           case args of
             [exe, Str sub, flag, d, Path target] \<Rightarrow>
               if sub = ''build''
               then fsys @ (if path_exists fsys target then [] else [(target, Dir)])
                      @ [(target @ [''demo-0.1.tar.gz''], File ''sdist'')]
               else fsys
           | _ \<Rightarrow> fsys)),
       get_resolved_dependencies = (\<lambda>v. Inr []),
       host_install = (\<lambda>v deps fsys. (Inr (), fsys)),
       ensure_empty_dir = tox_ensure_empty_dir,
       create_session_view = (\<lambda>p tmp fsys. (Inr (tmp @ [last p]), fsys)),
       lock_acquire = (\<lambda>lock_file fsys. (Inr (), fsys)),
       lock_release = (\<lambda>lock_file fsys. fsys),
       visit = py_visit \<rparr>"

text \<open>
  The same host with an external tool whose \<^verbatim>\<open>build\<close> writes nothing and creates nothing.
\<close>

definition quiet_host :: host where
  "quiet_host = example_host\<lparr>host_pcall := (\<lambda>resolve v args cwd fsys. (Inr (), fsys))\<rparr>"

definition example_config :: "bool \<Rightarrow> config" where
  "example_config skip =
     \<lparr> pdm = ''pdm'',
       toxinidir = [''proj''],
       toxworkdir = [''proj'', ''.tox''],
       isolated_build_env = ''.package'',
       temp_dir = [''proj'', ''.tox'', ''.tmp''],
       skipsdist = skip \<rparr>"

definition example_venv :: "bool \<Rightarrow> venv" where
  "example_venv skip =
     \<lparr> path = [''proj'', ''.tox'', ''py39''],
       envconfig = \<lparr> config = example_config False, skip_install = skip \<rparr> \<rparr>"

definition example_session :: "bool \<Rightarrow> session" where
  "example_session skip = \<lparr> session_config = example_config skip \<rparr>"

definition example_fs :: filesystem where
  "example_fs =
     [([''proj''], Dir),
      ([''proj'', ''.tox''], Dir),
      ([''proj'', ''.tox'', ''py39''], Dir),
      ([''proj'', ''.tox'', ''py39'', ''__pypackages__''], Dir),
      ([''proj'', ''.tox'', ''py39'', ''__pypackages__'', ''3.9''], Dir),
      ([''proj'', ''.tox'', ''py39'', ''__pypackages__'', ''3.9'', ''bin''], Dir),
      ([''proj'', ''.tox'', ''py39'', ''__pypackages__'', ''3.9'', ''lib''], Dir),
      ([''proj'', ''.tox'', ''py39'', ''__pypackages__'', ''3.9'', ''lib'', ''bin''], Dir),
      ([''proj'', ''.tox'', ''py39'', ''__pypackages__'', ''3.9'', ''lib'', ''bin'', ''pytest''],
         File ''#!python''),
      ([''proj'', ''.tox'', ''py39'', ''__pypackages__'', ''3.9'', ''lib'', ''bin'', ''flake8''],
         File ''#!python'')]"

text \<open>The same file system after an earlier build: the output directory holds an archive.\<close>

definition example_fs_built :: filesystem where
  "example_fs_built =
     example_fs @
     [([''proj'', ''.tox'', ''.package''], Dir),
      ([''proj'', ''.tox'', ''.package'', ''demo-0.0.tar.gz''], File ''old sdist'')]"

definition example_state :: "filesystem \<Rightarrow> string list option \<Rightarrow> state" where
  "example_state fsys grps =
     \<lparr> fs = fsys,
       getcommandpath = (\<lambda>self cmd. Inr (''/proj/.tox/py39/bin/'' @ cmd)),
       groups = grps,
       install_command = [Str ''python'', Str ''-m'', Str ''pip'', Str ''install''],
       list_dependencies_command = [Str ''python'', Str ''-m'', Str ''pip'', Str ''freeze''],
       package = None,
       dist = None,
       events = [] \<rparr>"

section \<open>Properties\<close>

subsection \<open>Auxiliary facts\<close>

lemmas hook_defs = ret_def raise_def and_then_def lift_def emit_def on_fs_def ensuring_def pcall_def install_def

lemmas example_defs = example_host_def example_config_def example_venv_def example_session_def
  example_state_def

lemma extend_groups_eq: "extend_groups args gs = args @ concat (map (\<lambda>g. [Str ''--group'', Str g]) gs)"
  by (induction gs arbitrary: args) auto

lemma pcalls_append: "pcalls (xs @ ys) = pcalls xs @ pcalls ys"
  by (induction xs rule: pcalls.induct) auto

lemma pcalls_install_resolved:
  "pcalls (events (snd (install_resolved h v action s))) = pcalls (events s)"
  by (simp add: install_resolved_def hook_defs pcalls_append split: prod.splits sum.splits)

lemma groups_install_resolved:
  "groups (snd (install_resolved h v action s)) = groups s"
  by (simp add: install_resolved_def hook_defs split: prod.splits sum.splits)

lemma pcalls_install_deps:
  "pcalls (events (snd (tox_testenv_install_deps h v action s)))
     = pcalls (events (snd (pdm_install h v action s)))"
proof (cases "pdm_install h v action s")
  case (Pair r s1)
  show ?thesis
  proof (cases r)
    case (Inl e)
    with Pair show ?thesis by (simp add: tox_testenv_install_deps_def and_then_def)
  next
    case (Inr u)
    obtain r2 s2 where s2: "install_resolved h v action s1 = (r2, s2)" by force
    have p2: "pcalls (events s2) = pcalls (events s1)"
      using pcalls_install_resolved [of h v action s1] s2 by simp
    show ?thesis
      using Pair Inr s2 p2
      by (cases r2) (auto simp add: tox_testenv_install_deps_def and_then_def ret_def on_fs_def
          split: prod.splits sum.splits)
  qed
qed

lemma groups_install_deps:
  "groups (snd (tox_testenv_install_deps h v action s))
     = groups (snd (pdm_install h v action s))"
proof (cases "pdm_install h v action s")
  case (Pair r s1)
  show ?thesis
  proof (cases r)
    case (Inl e)
    with Pair show ?thesis by (simp add: tox_testenv_install_deps_def and_then_def)
  next
    case (Inr u)
    obtain r2 s2 where s2: "install_resolved h v action s1 = (r2, s2)" by force
    have p2: "groups s2 = groups s1"
      using groups_install_resolved [of h v action s1] s2 by simp
    show ?thesis
      using Pair Inr s2 p2
      by (cases r2) (auto simp add: tox_testenv_install_deps_def and_then_def ret_def on_fs_def
          split: prod.splits sum.splits)
  qed
qed

lemma pcalls_pdm_install:
  "pcalls (events (snd (pdm_install h v action s))) =
     pcalls (events s) @
     (let grps = (case groups s of None \<Rightarrow> [] | Some g \<Rightarrow> g) in
      if \<not> skip_install (envconfig v) \<or> grps \<noteq> [] then
        [[Str (pdm (config (envconfig v))), Str ''install'', Str ''-p'', Str (fspath h (path v))]
         @ (if ''default'' \<notin> set grps \<and> skip_install (envconfig v) then [Str ''--no-default''] else [])
         @ concat (map (\<lambda>g. [Str ''--group'', Str g]) (remove1 ''default'' grps))
         @ [Str ''--no-self'']]
      else [])"
  by (simp add: pdm_install_def hook_defs pcalls_append extend_groups_eq Let_def remove1_idem
      split: prod.splits sum.splits option.splits)

lemma groups_pdm_install:
  "groups (snd (pdm_install h v action s)) =
     (case groups s of None \<Rightarrow> None
      | Some g \<Rightarrow> if ''default'' \<in> set g then Some (remove1 ''default'' g) else Some g)"
  by (simp add: pdm_install_def hook_defs Let_def
      split: prod.splits sum.splits option.splits)

lemma remove1_once: "count_list g x \<le> 1 \<Longrightarrow> remove1 x g = filter (\<lambda>y. y \<noteq> x) g"
proof (induction g)
  case Nil
  then show ?case by simp
next
  case (Cons a g)
  show ?case
  proof (cases "a = x")
    case True
    with Cons.prems have "count_list g x = 0" by simp
    then have "x \<notin> set g" by (simp add: count_list_0_iff)
    then have "filter (\<lambda>y. y \<noteq> x) g = g" by (auto simp add: filter_id_conv)
    with True show ?thesis by simp
  next
    case False
    with Cons show ?thesis by simp
  qed
qed

lemma no_group_default_flags:
  assumes "''default'' \<notin> set gs"
  shows "\<not> sublist [Str ''--group'', Str ''default'']
            (concat (map (\<lambda>g. [Str ''--group'', Str g]) gs) @ [Str ''--no-self''])"
  using assms
proof (induction gs)
  case Nil
  then show ?case by (simp add: sublist_Cons_right)
next
  case (Cons g gs)
  then show ?case by (cases gs) (auto simp add: sublist_Cons_right)
qed

lemma no_group_default_args:
  assumes "''default'' \<notin> set gs"
  shows "\<not> sublist [Str ''--group'', Str ''default'']
            ([Str a, Str ''install'', Str ''-p'', Str b]
             @ concat (map (\<lambda>g. [Str ''--group'', Str g]) gs) @ [Str ''--no-self''])"
  using no_group_default_flags [OF assms]
  by (cases gs) (auto simp add: sublist_Cons_right)

lemma group_flag_present:
  assumes "x \<in> set gs"
  shows "sublist [Str ''--group'', Str x]
            (pre @ concat (map (\<lambda>g. [Str ''--group'', Str g]) gs) @ post)"
proof -
  from assms obtain as bs where "gs = as @ x # bs" by (auto dest: split_list)
  then have "pre @ concat (map (\<lambda>g. [Str ''--group'', Str g]) gs) @ post
      = (pre @ concat (map (\<lambda>g. [Str ''--group'', Str g]) as)) @ [Str ''--group'', Str x]
        @ (concat (map (\<lambda>g. [Str ''--group'', Str g]) bs) @ post)" by simp
  then show ?thesis by (metis sublist_appendI)
qed

subsection \<open>The install command of \<^verbatim>\<open>tox_testenv_install_deps\<close>\<close>

text \<open>
  Claim C1, as the code has it. With \<^verbatim>\<open>skip_install\<close> set and a groups list that is unset
  or empty, the guard \<^verbatim>\<open>if not venv.envconfig.skip_install or groups\<close> is false: the install
  step leaves the state as it is and the hook calls no process at all, so there is no
  install command. The flag \<^verbatim>\<open>--no-default\<close> is appended when \<^verbatim>\<open>skip_install\<close> is set and
  the groups list is not empty and does not hold \<^verbatim>\<open>default\<close>; it is followed by one
  \<^verbatim>\<open>--group\<close> pair for each group.
\<close>

theorem install_deps_skip_install_without_groups:
  assumes "skip_install (envconfig v)"
  shows "(groups s = None \<or> groups s = Some [] \<longrightarrow>
            pdm_install h v action s = (Inr (), s) \<and>
            pcalls (events (snd (tox_testenv_install_deps h v action s))) = pcalls (events s))
       \<and> (\<forall>g. groups s = Some g \<and> g \<noteq> [] \<and> ''default'' \<notin> set g \<longrightarrow>
            pcalls (events (snd (tox_testenv_install_deps h v action s))) =
              pcalls (events s) @
              [[Str (pdm (config (envconfig v))), Str ''install'', Str ''-p'', Str (fspath h (path v)),
                Str ''--no-default'']
               @ concat (map (\<lambda>x. [Str ''--group'', Str x]) g) @ [Str ''--no-self'']])"
proof -
  have a: "pdm_install h v action s = (Inr (), s)" if "groups s = None \<or> groups s = Some []"
    using that assms by (auto simp add: pdm_install_def ret_def)
  show ?thesis
    using assms a by (auto simp add: pcalls_install_deps pcalls_pdm_install remove1_idem)
qed

theorem install_deps_skip_install_without_groups_witness:
  "skip_install (envconfig (example_venv True)) \<and>
   pdm_install example_host (example_venv True) ''run'' (example_state example_fs None)
     = (Inr (), example_state example_fs None) \<and>
   pcalls (events (snd (tox_testenv_install_deps example_host (example_venv True) ''run''
       (example_state example_fs (Some [''dev''])))))
     = [[Str ''pdm'', Str ''install'', Str ''-p'', Str ''/proj/.tox/py39'', Str ''--no-default'',
         Str ''--group'', Str ''dev'', Str ''--no-self'']]"
  using install_deps_skip_install_without_groups [of "example_venv True"
          "example_state example_fs None" example_host "''run''"]
        install_deps_skip_install_without_groups [of "example_venv True"
          "example_state example_fs (Some [''dev''])" example_host "''run''"]
  by (simp add: example_defs)

theorem install_deps_skip_install_without_groups_counterexample:
  "skip_install (envconfig (example_venv True)) \<and>
   groups (example_state example_fs None) = None \<and>
   events (snd (tox_testenv_install_deps example_host (example_venv True) ''run''
       (example_state example_fs None))) = []"
  by code_simp

text \<open>
  Claim C4, as the code has it. When the groups list holds \<^verbatim>\<open>default\<close> exactly once,
  the hook calls the external tool with \<^verbatim>\<open>install -p <env>\<close>, one \<^verbatim>\<open>--group\<close> pair for each
  group other than \<^verbatim>\<open>default\<close>, in order, and \<^verbatim>\<open>--no-self\<close>: nowhere in the vector is
  \<^verbatim>\<open>--group\<close> followed by \<^verbatim>\<open>default\<close>, and every other group follows a \<^verbatim>\<open>--group\<close>.
\<close>

theorem install_deps_removes_single_default:
  assumes "groups s = Some g" and "count_list g ''default'' = 1"
  shows "let args = [Str (pdm (config (envconfig v))), Str ''install'', Str ''-p'',
                     Str (fspath h (path v))]
                    @ concat (map (\<lambda>x. [Str ''--group'', Str x]) (filter (\<lambda>x. x \<noteq> ''default'') g))
                    @ [Str ''--no-self'']
         in pcalls (events (snd (tox_testenv_install_deps h v action s))) = pcalls (events s) @ [args]
            \<and> \<not> sublist [Str ''--group'', Str ''default''] args
            \<and> (\<forall>x \<in> set g. x \<noteq> ''default'' \<longrightarrow> sublist [Str ''--group'', Str x] args)"
proof -
  have mem: "''default'' \<in> set g"
    using assms(2) by (metis count_list_0_iff zero_neq_one)
  have rm: "remove1 ''default'' g = filter (\<lambda>x. x \<noteq> ''default'') g"
    using assms(2) by (simp add: remove1_once)
  have ne: "g \<noteq> []" using mem by auto
  have 1: "pcalls (events (snd (tox_testenv_install_deps h v action s))) = pcalls (events s) @
      [[Str (pdm (config (envconfig v))), Str ''install'', Str ''-p'', Str (fspath h (path v))]
       @ concat (map (\<lambda>x. [Str ''--group'', Str x]) (filter (\<lambda>x. x \<noteq> ''default'') g))
       @ [Str ''--no-self'']]"
    using assms(1) mem ne rm by (simp add: pcalls_install_deps pcalls_pdm_install)
  have 2: "\<not> sublist [Str ''--group'', Str ''default'']
      ([Str (pdm (config (envconfig v))), Str ''install'', Str ''-p'', Str (fspath h (path v))]
       @ concat (map (\<lambda>x. [Str ''--group'', Str x]) (filter (\<lambda>x. x \<noteq> ''default'') g))
       @ [Str ''--no-self''])"
    by (rule no_group_default_args) simp
  have 3: "sublist [Str ''--group'', Str x]
      ([Str (pdm (config (envconfig v))), Str ''install'', Str ''-p'', Str (fspath h (path v))]
       @ concat (map (\<lambda>x. [Str ''--group'', Str x]) (filter (\<lambda>x. x \<noteq> ''default'') g))
       @ [Str ''--no-self''])" if "x \<in> set g" "x \<noteq> ''default''" for x
    using that by (intro group_flag_present) simp
  show ?thesis unfolding Let_def using 1 2 3 by blast
qed

theorem install_deps_removes_single_default_witness:
  "count_list [''test'', ''default'', ''dev''] ''default'' = 1 \<and>
   pcalls (events (snd (tox_testenv_install_deps example_host (example_venv False) ''run''
       (example_state example_fs (Some [''test'', ''default'', ''dev''])))))
     = [[Str ''pdm'', Str ''install'', Str ''-p'', Str ''/proj/.tox/py39'',
         Str ''--group'', Str ''test'', Str ''--group'', Str ''dev'', Str ''--no-self'']]"
  using install_deps_removes_single_default [of "example_state example_fs (Some [''test'', ''default'', ''dev''])"
      "[''test'', ''default'', ''dev'']" "example_venv False" example_host "''run''"]
  by (simp add: example_defs Let_def)

theorem install_deps_removes_single_default_counterexample:
  "pcalls (events (snd (tox_testenv_install_deps example_host (example_venv False) ''run''
       (example_state example_fs (Some [''default'', ''default'', ''dev''])))))
     = [[Str ''pdm'', Str ''install'', Str ''-p'', Str ''/proj/.tox/py39'',
         Str ''--group'', Str ''default'', Str ''--group'', Str ''dev'', Str ''--no-self'']]"
  by code_simp

text \<open>
  Claim C5, as the code has it. When \<^verbatim>\<open>skip_install\<close> is not set and the groups list
  (empty when unset) holds \<^verbatim>\<open>default\<close> at most once, the install command is
  \<^verbatim>\<open>install -p <env>\<close>, then one \<^verbatim>\<open>--group\<close> pair for each requested group other than
  \<^verbatim>\<open>default\<close>, in order, then \<^verbatim>\<open>--no-self\<close>. None of the flags is \<^verbatim>\<open>default\<close>, and
  \<^verbatim>\<open>--no-default\<close> is among them only if a requested group has that very name.
\<close>

theorem install_deps_without_skip_install:
  assumes "\<not> skip_install (envconfig v)"
      and "grps = (case groups s of None \<Rightarrow> [] | Some g \<Rightarrow> g)"
      and "count_list grps ''default'' \<le> 1"
  shows "let flags = concat (map (\<lambda>x. [Str ''--group'', Str x])
                       (filter (\<lambda>x. x \<noteq> ''default'') grps))
         in pcalls (events (snd (tox_testenv_install_deps h v action s))) =
              pcalls (events s) @
              [[Str (pdm (config (envconfig v))), Str ''install'', Str ''-p'',
                Str (fspath h (path v))] @ flags @ [Str ''--no-self'']]
            \<and> Str ''default'' \<notin> set flags
            \<and> (''--no-default'' \<notin> set grps \<longrightarrow> Str ''--no-default'' \<notin> set flags)"
proof -
  have rm: "remove1 ''default'' grps = filter (\<lambda>x. x \<noteq> ''default'') grps"
    using assms(3) by (rule remove1_once)
  have "pcalls (events (snd (tox_testenv_install_deps h v action s))) =
      pcalls (events s) @
      [[Str (pdm (config (envconfig v))), Str ''install'', Str ''-p'', Str (fspath h (path v))]
       @ concat (map (\<lambda>x. [Str ''--group'', Str x]) (filter (\<lambda>x. x \<noteq> ''default'') grps))
       @ [Str ''--no-self'']]"
    using assms(1,2) rm by (simp add: pcalls_install_deps pcalls_pdm_install)
  then show ?thesis by (auto simp add: Let_def)
qed

theorem install_deps_without_skip_install_witness:
  "\<not> skip_install (envconfig (example_venv False)) \<and>
   count_list [''default'', ''dev'', ''doc''] ''default'' \<le> 1 \<and>
   pcalls (events (snd (tox_testenv_install_deps example_host (example_venv False) ''run''
       (example_state example_fs (Some [''default'', ''dev'', ''doc''])))))
     = [[Str ''pdm'', Str ''install'', Str ''-p'', Str ''/proj/.tox/py39'',
         Str ''--group'', Str ''dev'', Str ''--group'', Str ''doc'', Str ''--no-self'']]"
  using install_deps_without_skip_install [of "example_venv False" "[''default'', ''dev'', ''doc'']"
      "example_state example_fs (Some [''default'', ''dev'', ''doc''])" example_host "''run''"]
  by (simp add: example_defs Let_def)

theorem install_deps_without_skip_install_counterexample:
  "\<not> skip_install (envconfig (example_venv False)) \<and>
   pcalls (events (snd (tox_testenv_install_deps example_host (example_venv False) ''run''
       (example_state example_fs (Some [''default'', ''default''])))))
     = [[Str ''pdm'', Str ''install'', Str ''-p'', Str ''/proj/.tox/py39'',
         Str ''--group'', Str ''default'', Str ''--no-self'']]"
  by code_simp

text \<open>
  Claim C9, as the code has it. When the stored groups list holds \<^verbatim>\<open>default\<close> exactly
  once, the hook changes the stored list itself: after the hook, whether it raised or not,
  \<^verbatim>\<open>venv.envconfig.groups\<close> is the list without \<^verbatim>\<open>default\<close>. A second invocation on the
  same environment works from that list: it builds its command from the other groups, now
  with \<^verbatim>\<open>--no-default\<close> when \<^verbatim>\<open>skip_install\<close> is set, and it leaves the list as it found it.
\<close>

theorem install_deps_mutates_groups:
  assumes "groups s = Some g" and "count_list g ''default'' = 1"
  shows "let others = filter (\<lambda>x. x \<noteq> ''default'') g;
             s1 = snd (tox_testenv_install_deps h v action s)
         in groups s1 = Some others
            \<and> groups s1 \<noteq> groups s
            \<and> ''default'' \<notin> set others
            \<and> pcalls (events (snd (tox_testenv_install_deps h v action s1))) =
                pcalls (events s1) @
                (if \<not> skip_install (envconfig v) \<or> others \<noteq> [] then
                   [[Str (pdm (config (envconfig v))), Str ''install'', Str ''-p'',
                     Str (fspath h (path v))]
                    @ (if skip_install (envconfig v) then [Str ''--no-default''] else [])
                    @ concat (map (\<lambda>x. [Str ''--group'', Str x]) others)
                    @ [Str ''--no-self'']]
                 else [])
            \<and> groups (snd (tox_testenv_install_deps h v action s1)) = Some others"
proof -
  define others where "others = filter (\<lambda>x. x \<noteq> ''default'') g"
  define s1 where "s1 = snd (tox_testenv_install_deps h v action s)"
  have mem: "''default'' \<in> set g"
    using assms(2) by (metis count_list_0_iff zero_neq_one)
  have rm: "remove1 ''default'' g = others"
    using assms(2) by (simp add: remove1_once others_def)
  have g1: "groups s1 = Some others"
    using assms(1) mem rm by (simp add: s1_def groups_install_deps groups_pdm_install)
  have nd: "''default'' \<notin> set others" by (simp add: others_def)
  have neq: "groups s1 \<noteq> groups s"
    using g1 assms(1) mem nd by auto
  have rm2: "remove1 ''default'' others = others"
    using nd by (simp add: remove1_idem)
  have p2: "pcalls (events (snd (tox_testenv_install_deps h v action s1))) =
      pcalls (events s1) @
      (if \<not> skip_install (envconfig v) \<or> others \<noteq> [] then
         [[Str (pdm (config (envconfig v))), Str ''install'', Str ''-p'', Str (fspath h (path v))]
          @ (if skip_install (envconfig v) then [Str ''--no-default''] else [])
          @ concat (map (\<lambda>x. [Str ''--group'', Str x]) others)
          @ [Str ''--no-self'']]
       else [])"
    using g1 nd rm2 by (simp add: pcalls_install_deps pcalls_pdm_install)
  have g2: "groups (snd (tox_testenv_install_deps h v action s1)) = Some others"
    using g1 nd by (simp add: groups_install_deps groups_pdm_install)
  show ?thesis
    unfolding Let_def others_def [symmetric] s1_def [symmetric]
    using g1 neq nd p2 g2 by blast
qed

theorem install_deps_mutates_groups_witness:
  "count_list [''default'', ''dev''] ''default'' = 1 \<and>
   groups (snd (tox_testenv_install_deps example_host (example_venv True) ''run''
       (example_state example_fs (Some [''default'', ''dev''])))) = Some [''dev''] \<and>
   pcalls (events (snd (tox_testenv_install_deps example_host (example_venv True) ''run''
     (snd (tox_testenv_install_deps example_host (example_venv True) ''run''
       (example_state example_fs (Some [''default'', ''dev''])))))))
     = [[Str ''pdm'', Str ''install'', Str ''-p'', Str ''/proj/.tox/py39'',
         Str ''--group'', Str ''dev'', Str ''--no-self''],
        [Str ''pdm'', Str ''install'', Str ''-p'', Str ''/proj/.tox/py39'', Str ''--no-default'',
         Str ''--group'', Str ''dev'', Str ''--no-self'']]"
proof -
  have c: "count_list [''default'', ''dev''] ''default'' = 1" by simp
  have g: "groups (example_state example_fs (Some [''default'', ''dev''])) = Some [''default'', ''dev'']"
    by (simp add: example_state_def)
  have p1: "pcalls (events (snd (tox_testenv_install_deps example_host (example_venv True) ''run''
       (example_state example_fs (Some [''default'', ''dev''])))))
     = [[Str ''pdm'', Str ''install'', Str ''-p'', Str ''/proj/.tox/py39'',
         Str ''--group'', Str ''dev'', Str ''--no-self'']]"
    by (simp add: pcalls_install_deps pcalls_pdm_install example_defs)
  show ?thesis
    using install_deps_mutates_groups [OF g c, of example_host "example_venv True" "''run''"] p1 c
    by (simp add: Let_def example_defs)
qed

theorem install_deps_mutates_groups_counterexample:
  "groups (snd (tox_testenv_install_deps example_host (example_venv False) ''run''
       (example_state example_fs (Some [''default'', ''default''])))) = Some [''default'']"
  by code_simp

subsection \<open>Skipping the source distribution\<close>

text \<open>
  Claim C2. When the configuration marks the source distribution as skipped
  (\<^verbatim>\<open>skipsdist\<close>), \<open>get_package\<close> returns \<^verbatim>\<open>None\<close> without raising; all it does is report
  \<^verbatim>\<open>skipping sdist step\<close> through \<^verbatim>\<open>reporter.info\<close>: the file system is as before and no
  process is called.
\<close>

theorem get_package_skipsdist:
  assumes "skipsdist (session_config sess)"
  shows "get_package h sess v s = (Inr None, s\<lparr>events := events s @ [Info ''skipping sdist step'']\<rparr>)
         \<and> fs (snd (get_package h sess v s)) = fs s
         \<and> pcalls (events (snd (get_package h sess v s))) = pcalls (events s)"
  using assms by (simp add: get_package_def hook_defs pcalls_append)

theorem get_package_skipsdist_witness:
  "skipsdist (session_config (example_session True)) \<and>
   get_package example_host (example_session True) (example_venv False)
       (example_state example_fs None)
     = (Inr None, (example_state example_fs None)\<lparr>events := [Info ''skipping sdist step'']\<rparr>)"
  using get_package_skipsdist [of "example_session True" example_host "example_venv False"
      "example_state example_fs None"]
  by (simp add: example_session_def example_config_def example_state_def)

text \<open>
  Claim C8. When \<^verbatim>\<open>skipsdist\<close> is set and the session has no \<^verbatim>\<open>package\<close> attribute yet,
  \<open>tox_package\<close> raises \<^verbatim>\<open>TypeError\<close>: once the manifest files are cloned, \<open>get_package\<close>
  returns \<^verbatim>\<open>None\<close> and the assignment \<^verbatim>\<open>session.package, session.dist = None\<close> cannot
  unpack it. The session gets no package and the install command is not touched.
\<close>

theorem tox_package_skipsdist_type_error:
  assumes "skipsdist (session_config sess)"
      and "package s = None"
      and "clone_pdm_files h (fspath h (path v)) (fspath h (toxinidir (config (envconfig v)))) (fs s)
             = (Inr (), fsys)"
  shows "tox_package h sess v s
           = (Inl TypeError, s\<lparr>fs := fsys, events := events s @ [Info ''skipping sdist step'']\<rparr>)"
  using assms by (simp add: tox_package_def get_package_def hook_defs)

theorem tox_package_skipsdist_type_error_witness:
  "skipsdist (session_config (example_session True)) \<and>
   package (example_state example_fs None) = None \<and>
   fst (tox_package example_host (example_session True) (example_venv False)
       (example_state example_fs None)) = Inl TypeError"
  using tox_package_skipsdist_type_error [of "example_session True" "example_state example_fs None"
      example_host "example_venv False" example_fs]
  by (simp add: example_defs)

subsection \<open>The command-path resolver\<close>

text \<open>
  Claim C3, as the code has it. Once the manifest files are cloned and the interpreter is
  found, \<open>tox_testenv_create\<close> replaces \<^verbatim>\<open>VirtualEnv.getcommandpath\<close> by a resolver that
  answers the interpreter for \<^verbatim>\<open>python\<close> and asks the previous resolver for any other
  command. The external tool's \<^verbatim>\<open>use -f\<close> call runs with that resolver, and the resolver
  stays in place after the hook, whether the call raised or not: nothing restores the
  previous one.
\<close>

theorem testenv_create_patch_stays:
  assumes "clone_pdm_files h (fspath h (path v)) (fspath h (toxinidir (config (envconfig v)))) (fs s)
             = (Inr (), fsys)"
      and "getsupportedinterpreter h v = Inr interp"
  shows "let patched = (\<lambda>self cmd. if cmd = ''python'' then Inr interp else getcommandpath s self cmd);
             args = [Str (pdm (config (envconfig v))), Str ''use'', Str ''-f'', Str interp]
         in tox_testenv_create h v action s =
              (case host_pcall h patched v args (path v) fsys of
                 (r, fsys') \<Rightarrow>
                   (case r of Inl e \<Rightarrow> Inl e | Inr u \<Rightarrow> Inr True,
                    s\<lparr>fs := fsys', getcommandpath := patched,
                      events := events s @ [Pcall args (path v) action]\<rparr>))
            \<and> getcommandpath (snd (tox_testenv_create h v action s)) = patched
            \<and> (\<forall>self. getcommandpath (snd (tox_testenv_create h v action s)) self ''python''
                        = Inr interp)"
proof -
  define patched where
    "patched = (\<lambda>self cmd. if cmd = ''python'' then Inr interp else getcommandpath s self cmd)"
  define args where
    "args = [Str (pdm (config (envconfig v))), Str ''use'', Str ''-f'', Str interp]"
  obtain r fsys' where call: "host_pcall h patched v args (path v) fsys = (r, fsys')"
    by force
  have run: "tox_testenv_create h v action s =
      (case r of Inl e \<Rightarrow> Inl e | Inr u \<Rightarrow> Inr True,
       s\<lparr>fs := fsys', getcommandpath := patched,
         events := events s @ [Pcall args (path v) action]\<rparr>)"
    using assms call
    by (cases r) (simp_all add: tox_testenv_create_def hook_defs patch_getcommandpath_def
        patched_def args_def cong: if_cong)
  have "getcommandpath (snd (tox_testenv_create h v action s)) = patched"
    by (simp add: run)
  moreover have "patched self ''python'' = Inr interp" for self
    by (simp add: patched_def)
  ultimately show ?thesis
    unfolding Let_def patched_def [symmetric] args_def [symmetric]
    using run call by simp
qed

theorem testenv_create_patch_stays_witness:
  "getsupportedinterpreter example_host (example_venv False) = Inr ''/usr/bin/python3.9'' \<and>
   getcommandpath (snd (tox_testenv_create example_host (example_venv False) ''create''
       (example_state example_fs None)))
     = (\<lambda>self cmd. if cmd = ''python'' then Inr ''/usr/bin/python3.9''
                   else Inr (''/proj/.tox/py39/bin/'' @ cmd))"
proof -
  have c: "clone_pdm_files example_host (fspath example_host (path (example_venv False)))
      (fspath example_host (toxinidir (config (envconfig (example_venv False)))))
      (fs (example_state example_fs None)) = (Inr (), example_fs)"
    by (simp add: example_defs)
  have i: "getsupportedinterpreter example_host (example_venv False) = Inr ''/usr/bin/python3.9''"
    by (simp add: example_defs)
  have "getcommandpath (snd (tox_testenv_create example_host (example_venv False) ''create''
       (example_state example_fs None)))
     = (\<lambda>self cmd. if cmd = ''python'' then Inr ''/usr/bin/python3.9''
                   else getcommandpath (example_state example_fs None) self cmd)"
    using testenv_create_patch_stays [OF c i, of "''create''"] unfolding Let_def by blast
  then show ?thesis
    using i by (simp add: example_state_def cong: if_cong)
qed

theorem testenv_create_patch_stays_counterexample:
  "getcommandpath (example_state example_fs None) (example_venv False) ''python''
     = Inr ''/proj/.tox/py39/bin/python'' \<and>
   fst (tox_testenv_create example_host (example_venv False) ''create''
       (example_state example_fs None)) = Inr True \<and>
   getcommandpath (snd (tox_testenv_create example_host (example_venv False) ''create''
       (example_state example_fs None))) (example_venv False) ''python''
     = Inr ''/usr/bin/python3.9''"
  by (simp add: tox_testenv_create_def hook_defs patch_getcommandpath_def example_defs)

subsection \<open>Rewriting the command lists\<close>

lemma patch_python_length:
  "length (snd (patch_python interp cmd)) = length cmd"
  by (induction cmd) (auto split: sum.splits prod.splits)

lemma patch_python_append:
  assumes "Str ''python'' \<notin> set ys"
  shows "patch_python interp (xs @ ys) =
           (case patch_python interp xs of (r, xs') \<Rightarrow> (r, xs' @ ys))"
  using assms
proof (induction xs)
  case Nil
  then show ?case by (induction ys) (auto split: prod.splits)
next
  case (Cons a xs)
  then show ?case by (auto split: sum.splits prod.splits)
qed

lemma and_then_frame:
  assumes "\<And>s. f (snd (m s)) = f s" and "\<And>x s. f (snd (k x s)) = f s"
  shows "f (snd (and_then m k s)) = (f s :: 'c)"
proof (cases "m s")
  case (Pair r s1)
  have "f s1 = f s" using assms(1) [of s] Pair by simp
  then show ?thesis
    using Pair assms(2) by (cases r) (simp_all add: and_then_def)
qed

lemma install_command_on_fs: "install_command (snd (on_fs f s)) = install_command s"
  by (simp add: on_fs_def split: prod.splits)

lemma install_command_emit: "install_command (snd (emit ev s)) = install_command s"
  by (simp add: emit_def)

lemma install_command_pcall: "install_command (snd (pcall h v args cwd action s)) = install_command s"
  by (simp add: pcall_def emit_def and_then_def on_fs_def split: prod.splits sum.splits)

lemma install_command_create:
  "install_command (snd (tox_testenv_create h v action s)) = install_command s"
  unfolding tox_testenv_create_def
  by (intro and_then_frame install_command_on_fs install_command_pcall)
     (simp_all add: lift_def ret_def)

lemma install_command_acquire:
  "install_command (snd (acquire_package h cfg v s)) = install_command s"
  unfolding acquire_package_def Let_def
  by (intro and_then_frame install_command_on_fs install_command_pcall install_command_create
        install_command_emit)
     (simp_all add: ret_def)

lemma install_command_get_package:
  "install_command (snd (get_package h sess v s)) = install_command s"
proof -
  have e: "install_command (snd (ensuring m (\<lambda>s. s\<lparr>fs := g (fs s)\<rparr>) s)) = install_command s"
    if "\<And>s. install_command (snd (m s)) = install_command s" for m :: "'a hook" and g s
    using that [of s] by (cases "m s") (simp add: ensuring_def)
  show ?thesis
    unfolding get_package_def Let_def
    by (auto intro!: and_then_frame install_command_on_fs install_command_emit e
          install_command_acquire simp add: ret_def)
qed

lemma tox_package_install_command:
  assumes "tox_package h sess v s = (Inr p, s')"
  shows "\<exists>cmd. patch_python (getsupportedinterpreter h v) (install_command s) = (Inr (), cmd)
           \<and> install_command s' = cmd @ [Str ''-t'',
                 Path (get_env_lib_path h (pdm (config (envconfig v))) (path v))]"
proof -
  define lib where "lib = get_env_lib_path h (pdm (config (envconfig v))) (path v)"
  obtain r1 fs1 where c: "clone_pdm_files h (fspath h (path v))
      (fspath h (toxinidir (config (envconfig v)))) (fs s) = (r1, fs1)" by force
  define s1 where "s1 = s\<lparr>fs := fs1\<rparr>"
  have r1: "r1 = Inr ()"
    using assms c by (cases r1) (simp_all add: tox_package_def and_then_def on_fs_def)
  define step2 :: "unit hook" where "step2 = (\<lambda>s. if package s = None then
                      and_then (get_package h sess v) (\<lambda>r.
                        case r of
                          None \<Rightarrow> raise TypeError
                        | Some (session_package, package') \<Rightarrow>
                            (\<lambda>s. (Inr (), s\<lparr>package := Some session_package,
                                             dist := Some package'\<rparr>))) s
                    else ret () s)"
  have f2: "install_command (snd (step2 t)) = install_command t" for t
    unfolding step2_def
    by (auto intro!: and_then_frame install_command_get_package
        simp add: ret_def raise_def split: option.splits)
  obtain r2 s2 where s2: "step2 s1 = (r2, s2)" by force
  have ic2: "install_command s2 = install_command s"
    using f2 [of s1] s2 by (simp add: s1_def)
  have r2: "r2 = Inr ()"
    using assms c r1 s2
    by (cases r2) (simp_all add: tox_package_def and_then_def on_fs_def step2_def s1_def)
  obtain r3 cmd where p: "patch_python (getsupportedinterpreter h v) (install_command s2) = (r3, cmd)"
    by force
  have run: "tox_package h sess v s =
      (case r3 of Inl e \<Rightarrow> (Inl e, s2\<lparr>install_command := cmd\<rparr>)
       | Inr u \<Rightarrow> (case package s2 of
             None \<Rightarrow> (Inl AttributeError, s2\<lparr>install_command := cmd @ [Str ''-t'', Path lib]\<rparr>)
           | Some p \<Rightarrow> (Inr p, s2\<lparr>install_command := cmd @ [Str ''-t'', Path lib]\<rparr>)))"
    using c r1 s2 r2 p
    by (simp add: tox_package_def and_then_def on_fs_def step2_def [symmetric] s1_def [symmetric]
        lib_def [symmetric] split: sum.splits option.splits)
  show ?thesis
    using assms run p ic2
    by (auto simp add: lib_def split: sum.splits option.splits)
qed

lemma tox_runenvreport_command:
  assumes "tox_runenvreport h v action s = (Inr u, s')"
  shows "\<exists>cmd. patch_python (getsupportedinterpreter h v) (list_dependencies_command s) = (Inr (), cmd)
           \<and> list_dependencies_command s' = cmd @ [Str ''--path'',
                 Path (get_env_lib_path h (pdm (config (envconfig v))) (path v))]"
  using assms
  by (auto simp add: tox_runenvreport_def and_then_def split: prod.splits sum.splits)

lemma invoke_times_Suc_end:
  "invoke_times (Suc n) m = and_then (invoke_times n m) (\<lambda>_. and_then m (\<lambda>_. ret ()))"
proof (induction n)
  case 0
  show ?case by (auto simp add: and_then_def ret_def split: prod.splits sum.splits)
next
  case (Suc n)
  have "invoke_times (Suc (Suc n)) m = and_then m (\<lambda>_. invoke_times (Suc n) m)" by simp
  also have "\<dots> = and_then m (\<lambda>_. and_then (invoke_times n m) (\<lambda>_. and_then m (\<lambda>_. ret ())))"
    using Suc by simp
  also have "\<dots> = and_then (and_then m (\<lambda>_. invoke_times n m)) (\<lambda>_. and_then m (\<lambda>_. ret ()))"
    by (auto simp add: and_then_def split: prod.splits sum.splits)
  finally show ?case by simp
qed

lemma invoke_times_appends:
  assumes run: "invoke_times n m s = (Inr (), s')"
      and step: "\<And>t r t'. m t = (Inr r, t') \<Longrightarrow>
                   \<exists>cmd'. patch_python interp (cmd t) = (Inr (), cmd') \<and> cmd t' = cmd' @ pair"
      and pair: "Str ''python'' \<notin> set pair"
  shows "\<exists>pre. length pre = length (cmd s) \<and> cmd s' = pre @ concat (replicate n pair)"
  using run
proof (induction n arbitrary: s')
  case 0
  then show ?case by (simp add: ret_def)
next
  case (Suc n)
  obtain r1 s1 where s1: "invoke_times n m s = (r1, s1)" by force
  have r1: "r1 = Inr ()"
    using Suc.prems s1 by (cases r1) (simp_all add: invoke_times_Suc_end and_then_def del: invoke_times.simps)
  obtain r2 s2 where s2: "m s1 = (r2, s2)" by force
  have last: "\<exists>r. r2 = Inr r \<and> s2 = s'"
    using Suc.prems s1 r1 s2
    by (cases r2) (simp_all add: invoke_times_Suc_end and_then_def ret_def del: invoke_times.simps)
  from Suc.IH s1 r1 obtain pre where pre: "length pre = length (cmd s)"
      "cmd s1 = pre @ concat (replicate n pair)" by auto
  from last s2 step obtain cmd' where cmd': "patch_python interp (cmd s1) = (Inr (), cmd')"
      "cmd s' = cmd' @ pair" by blast
  have np: "Str ''python'' \<notin> set (concat (replicate n pair))"
    using pair by (induction n) auto
  obtain r3 pre' where p3: "patch_python interp pre = (r3, pre')" by force
  have "cmd' = pre' @ concat (replicate n pair)"
    using cmd'(1) pre(2) p3 patch_python_append [OF np, of interp pre] by simp
  moreover have "length pre' = length pre"
    using patch_python_length [of interp pre] p3 by simp
  moreover have "concat (replicate n pair) @ pair = concat (replicate (Suc n) pair)"
    by (induction n) auto
  ultimately show ?case
    using cmd'(2) pre(1) by (intro exI [of _ pre']) (simp del: replicate.simps)
qed

text \<open>
  Claim C10. \<open>tox_package\<close> and \<open>tox_runenvreport\<close> are not idempotent on the command
  lists: every invocation that returns appends \<^verbatim>\<open>-t <lib path>\<close> to the install command and
  \<^verbatim>\<open>--path <lib path>\<close> to the command that lists the dependencies. After \<open>n\<close> invocations
  the list is as long as it was, plus two elements for each invocation, and it ends with
  \<open>n\<close> copies of the pair.
\<close>

theorem command_lists_grow_with_every_invocation:
  "(invoke_times n (tox_package h sess v) s = (Inr (), s') \<longrightarrow>
      length (install_command s') = length (install_command s) + 2 * n \<and>
      drop (length (install_command s)) (install_command s') =
        concat (replicate n [Str ''-t'',
          Path (get_env_lib_path h (pdm (config (envconfig v))) (path v))]))
   \<and> (invoke_times n (tox_runenvreport h v action) t = (Inr (), t') \<longrightarrow>
      length (list_dependencies_command t') = length (list_dependencies_command t) + 2 * n \<and>
      drop (length (list_dependencies_command t)) (list_dependencies_command t') =
        concat (replicate n [Str ''--path'',
          Path (get_env_lib_path h (pdm (config (envconfig v))) (path v))]))"
proof -
  have len: "length (concat (replicate n [a, b])) = 2 * n" for a b :: arg
    by (induction n) auto
  have 1: "length (install_command s') = length (install_command s) + 2 * n \<and>
      drop (length (install_command s)) (install_command s') =
        concat (replicate n [Str ''-t'',
          Path (get_env_lib_path h (pdm (config (envconfig v))) (path v))])"
    if "invoke_times n (tox_package h sess v) s = (Inr (), s')"
    using invoke_times_appends [where cmd = install_command and m = "tox_package h sess v"
        and interp = "getsupportedinterpreter h v", OF that]
      tox_package_install_command [of h sess v]
    by (fastforce simp add: len)
  have 2: "length (list_dependencies_command t') = length (list_dependencies_command t) + 2 * n \<and>
      drop (length (list_dependencies_command t)) (list_dependencies_command t') =
        concat (replicate n [Str ''--path'',
          Path (get_env_lib_path h (pdm (config (envconfig v))) (path v))])"
    if "invoke_times n (tox_runenvreport h v action) t = (Inr (), t')"
    using invoke_times_appends [where cmd = list_dependencies_command
        and m = "tox_runenvreport h v action"
        and interp = "getsupportedinterpreter h v", OF that]
      tox_runenvreport_command [of h v action]
    by (fastforce simp add: len)
  show ?thesis using 1 2 by blast
qed

theorem command_lists_grow_with_every_invocation_witness:
  "fst (invoke_times (Suc (Suc 0))
          (tox_package example_host (example_session False) (example_venv False))
          (example_state example_fs None)) = Inr () \<and>
   drop 4 (install_command (snd (invoke_times (Suc (Suc 0))
          (tox_package example_host (example_session False) (example_venv False))
          (example_state example_fs None))))
     = [Str ''-t'', Path [''proj'', ''.tox'', ''py39'', ''__pypackages__'', ''3.9'', ''lib''],
        Str ''-t'', Path [''proj'', ''.tox'', ''py39'', ''__pypackages__'', ''3.9'', ''lib'']] \<and>
   fst (invoke_times (Suc (Suc 0))
          (tox_runenvreport example_host (example_venv False) ''report'')
          (example_state example_fs None)) = Inr () \<and>
   drop 4 (list_dependencies_command (snd (invoke_times (Suc (Suc 0))
          (tox_runenvreport example_host (example_venv False) ''report'')
          (example_state example_fs None))))
     = [Str ''--path'', Path [''proj'', ''.tox'', ''py39'', ''__pypackages__'', ''3.9'', ''lib''],
        Str ''--path'', Path [''proj'', ''.tox'', ''py39'', ''__pypackages__'', ''3.9'', ''lib'']]"
proof -
  define s0 where "s0 = example_state example_fs None"
  define p where "p = invoke_times (Suc (Suc 0))
          (tox_package example_host (example_session False) (example_venv False)) s0"
  define q where "q = invoke_times (Suc (Suc 0))
          (tox_runenvreport example_host (example_venv False) ''report'') s0"
  have fp: "fst p = Inr ()" unfolding p_def s0_def by code_simp
  have fq: "fst q = Inr ()" unfolding q_def s0_def by code_simp
  have rp: "invoke_times (Suc (Suc 0))
          (tox_package example_host (example_session False) (example_venv False)) s0
          = (Inr (), snd p)"
    using fp by (simp add: p_def prod_eq_iff)
  have rq: "invoke_times (Suc (Suc 0))
          (tox_runenvreport example_host (example_venv False) ''report'') s0 = (Inr (), snd q)"
    using fq by (simp add: q_def prod_eq_iff)
  have "drop (length (install_command s0)) (install_command (snd p)) =
        concat (replicate (Suc (Suc 0)) [Str ''-t'',
          Path (get_env_lib_path example_host (pdm (config (envconfig (example_venv False))))
                  (path (example_venv False)))])
     \<and> drop (length (list_dependencies_command s0)) (list_dependencies_command (snd q)) =
        concat (replicate (Suc (Suc 0)) [Str ''--path'',
          Path (get_env_lib_path example_host (pdm (config (envconfig (example_venv False))))
                  (path (example_venv False)))])"
    using command_lists_grow_with_every_invocation [of "Suc (Suc 0)" example_host
        "example_session False" "example_venv False" s0 "snd p" "''report''" s0 "snd q"] rp rq
    by blast
  then show ?thesis
    using fp fq unfolding p_def [symmetric] q_def [symmetric] s0_def [symmetric]
    by (simp add: s0_def example_defs p_def [symmetric] q_def [symmetric] eval_nat_numeral)
qed

subsection \<open>The result of the build\<close>

text \<open>
  Claim C6, as the code has it. Once the build call of \<open>acquire_package\<close> has returned,
  the result is the first path that \<^verbatim>\<open>target_dir.visit("*.tar.gz")\<close> yields. When it yields
  nothing, \<^verbatim>\<open>next\<close> raises \<^verbatim>\<open>StopIteration\<close>; when \<^verbatim>\<open>visit\<close> itself raises, that error takes
  its place: py.path raises \<^verbatim>\<open>ENOENT\<close> for an output directory that does not exist, and
  \<^verbatim>\<open>StopIteration\<close> is what comes of a directory that exists and holds no match. Whatever
  error leaves \<open>acquire_package\<close> leaves \<open>get_package\<close> and the hook \<open>tox_package\<close> as it
  is: none of them catches it or returns an error value.
\<close>

theorem acquire_package_first_match:
  assumes target: "target_dir = toxworkdir (session_config sess)
                                  @ [isolated_build_env (session_config sess)]"
      and built: "and_then (on_fs (ensure_empty_dir h target_dir)) (\<lambda>_.
                  and_then (tox_testenv_create h v ''buildpkg'') (\<lambda>_.
                  pcall h v [Str (pdm (config (envconfig v))), Str ''build'', Str ''--no-wheel'',
                             Str ''-d'', Path target_dir]
                    (toxinidir (config (envconfig v))) ''buildpkg'')) s = (Inr (), s')"
  shows "acquire_package h (session_config sess) v s =
           (case visit h target_dir ''*.tar.gz'' (fs s') of
              Inl e \<Rightarrow> (Inl e, s')
            | Inr [] \<Rightarrow> (Inl StopIteration, s')
            | Inr (p # ps) \<Rightarrow>
                (Inr p, s'\<lparr>events := events s'
                             @ [SetActivity ''buildpkg'' ''buildpkg'' (Location p)]\<rparr>))
         \<and> (\<forall>e. fst (acquire_package h (session_config sess) v s) = Inl e \<longrightarrow>
              (\<forall>s0. \<not> skipsdist (session_config sess) \<and>
                    lock_acquire h (toxworkdir (session_config sess)
                        @ [isolated_build_env (session_config sess) @ ''.lock'']) (fs s0)
                      = (Inr (), fs s) \<and>
                    s = s0\<lparr>fs := fs s\<rparr> \<longrightarrow>
                    fst (get_package h sess v s0) = Inl e) \<and>
              (\<forall>s0 fsys. \<not> skipsdist (session_config sess) \<and> package s0 = None \<and>
                    clone_pdm_files h (fspath h (path v))
                        (fspath h (toxinidir (config (envconfig v)))) (fs s0) = (Inr (), fsys) \<and>
                    lock_acquire h (toxworkdir (session_config sess)
                        @ [isolated_build_env (session_config sess) @ ''.lock'']) fsys
                      = (Inr (), fs s) \<and>
                    s = s0\<lparr>fs := fs s\<rparr> \<longrightarrow>
                    fst (tox_package h sess v s0) = Inl e))
         \<and> (visit h = py_visit \<longrightarrow>
              (\<not> path_exists (fs s') target_dir \<longrightarrow>
                 fst (acquire_package h (session_config sess) v s)
                   = Inl (HostError ''py.error.ENOENT'')) \<and>
              (path_isdir (fs s') target_dir \<and>
               (\<forall>q \<in> fst ` set (fs s'). strict_prefix target_dir q \<longrightarrow>
                                       \<not> fnmatch ''*.tar.gz'' (last q)) \<longrightarrow>
                 fst (acquire_package h (session_config sess) v s) = Inl StopIteration))"
proof -
  define steps where "steps = and_then (on_fs (ensure_empty_dir h target_dir)) (\<lambda>_.
                  and_then (tox_testenv_create h v ''buildpkg'') (\<lambda>_.
                  pcall h v [Str (pdm (config (envconfig v))), Str ''build'', Str ''--no-wheel'',
                             Str ''-d'', Path target_dir]
                    (toxinidir (config (envconfig v))) ''buildpkg''))"
  define rest where "rest = (\<lambda>_ :: unit. and_then (\<lambda>s. (next_of (visit h target_dir ''*.tar.gz'' (fs s)), s)) (\<lambda>p.
        and_then (emit (SetActivity ''buildpkg'' ''buildpkg'' (Location p))) (\<lambda>_.
        ret p)))"
  have assoc: "acquire_package h (session_config sess) v = and_then steps rest"
    unfolding acquire_package_def Let_def target [symmetric] steps_def rest_def
    by (rule ext) (simp add: and_then_def split: prod.splits sum.splits)
  have acq: "acquire_package h (session_config sess) v s =
           (case visit h target_dir ''*.tar.gz'' (fs s') of
              Inl e \<Rightarrow> (Inl e, s')
            | Inr [] \<Rightarrow> (Inl StopIteration, s')
            | Inr (p # ps) \<Rightarrow>
                (Inr p, s'\<lparr>events := events s'
                             @ [SetActivity ''buildpkg'' ''buildpkg'' (Location p)]\<rparr>))"
  proof -
    have "steps s = (Inr (), s')" using built by (simp add: steps_def)
    then show ?thesis
      by (simp add: assoc and_then_def rest_def next_of_def emit_def ret_def
          split: sum.splits list.splits)
  qed
  have gp: "fst (get_package h sess v s0) = Inl e"
    if err: "fst (acquire_package h (session_config sess) v s) = Inl e"
      and sd: "\<not> skipsdist (session_config sess)"
      and lock: "lock_acquire h (toxworkdir (session_config sess)
           @ [isolated_build_env (session_config sess) @ ''.lock'']) (fs s0) = (Inr (), fs s)"
      and s: "s = s0\<lparr>fs := fs s\<rparr>" for s0 e
  proof -
    obtain t where t: "acquire_package h (session_config sess) v s = (Inl e, t)"
      using err by (cases "acquire_package h (session_config sess) v s") auto
    show ?thesis
      using sd lock t s [symmetric]
      by (simp add: get_package_def Let_def and_then_def on_fs_def ensuring_def)
  qed
  have tp: "fst (tox_package h sess v s0) = Inl e"
    if err: "fst (acquire_package h (session_config sess) v s) = Inl e"
      and sd: "\<not> skipsdist (session_config sess)"
      and np: "package s0 = None"
      and clone: "clone_pdm_files h (fspath h (path v))
           (fspath h (toxinidir (config (envconfig v)))) (fs s0) = (Inr (), fsys)"
      and lock: "lock_acquire h (toxworkdir (session_config sess)
           @ [isolated_build_env (session_config sess) @ ''.lock'']) fsys = (Inr (), fs s)"
      and s: "s = s0\<lparr>fs := fs s\<rparr>" for s0 fsys e
  proof -
    have "s = (s0\<lparr>fs := fsys\<rparr>)\<lparr>fs := fs s\<rparr>" using s by simp
    then have "fst (get_package h sess v (s0\<lparr>fs := fsys\<rparr>)) = Inl e"
      using gp [of e "s0\<lparr>fs := fsys\<rparr>"] err sd lock by simp
    then obtain t where "get_package h sess v (s0\<lparr>fs := fsys\<rparr>) = (Inl e, t)"
      by (cases "get_package h sess v (s0\<lparr>fs := fsys\<rparr>)") auto
    then show ?thesis
      using np clone by (simp add: tox_package_def and_then_def on_fs_def)
  qed
  have absent: "fst (acquire_package h (session_config sess) v s)
                  = Inl (HostError ''py.error.ENOENT'')"
    if "visit h = py_visit" "\<not> path_exists (fs s') target_dir"
    using that acq by (simp add: py_visit_def path_exists_def)
  have empty: "fst (acquire_package h (session_config sess) v s) = Inl StopIteration"
    if vis: "visit h = py_visit" and d: "path_isdir (fs s') target_dir"
      and nomatch: "\<forall>q \<in> fst ` set (fs s'). strict_prefix target_dir q \<longrightarrow>
                                       \<not> fnmatch ''*.tar.gz'' (last q)"
  proof -
    have "filter (\<lambda>q. strict_prefix target_dir q \<and> fnmatch ''*.tar.gz'' (last q))
            (map fst (fs s')) = []"
      using nomatch by (auto simp add: filter_empty_conv)
    then have "visit h target_dir ''*.tar.gz'' (fs s') = Inr []"
      using vis d by (simp add: py_visit_def path_isdir_def)
    with acq show ?thesis by simp
  qed
  show ?thesis
  proof (intro conjI allI impI)
    show "acquire_package h (session_config sess) v s =
           (case visit h target_dir ''*.tar.gz'' (fs s') of
              Inl e \<Rightarrow> (Inl e, s')
            | Inr [] \<Rightarrow> (Inl StopIteration, s')
            | Inr (p # ps) \<Rightarrow>
                (Inr p, s'\<lparr>events := events s'
                             @ [SetActivity ''buildpkg'' ''buildpkg'' (Location p)]\<rparr>))"
      by (rule acq)
  next
    fix e s0
    assume "fst (acquire_package h (session_config sess) v s) = Inl e"
      and "\<not> skipsdist (session_config sess) \<and>
                    lock_acquire h (toxworkdir (session_config sess)
                        @ [isolated_build_env (session_config sess) @ ''.lock'']) (fs s0)
                      = (Inr (), fs s) \<and>
                    s = s0\<lparr>fs := fs s\<rparr>"
    then show "fst (get_package h sess v s0) = Inl e" using gp by blast
  next
    fix e s0 fsys
    assume "fst (acquire_package h (session_config sess) v s) = Inl e"
      and "\<not> skipsdist (session_config sess) \<and> package s0 = None \<and>
                    clone_pdm_files h (fspath h (path v))
                        (fspath h (toxinidir (config (envconfig v)))) (fs s0) = (Inr (), fsys) \<and>
                    lock_acquire h (toxworkdir (session_config sess)
                        @ [isolated_build_env (session_config sess) @ ''.lock'']) fsys
                      = (Inr (), fs s) \<and>
                    s = s0\<lparr>fs := fs s\<rparr>"
    then show "fst (tox_package h sess v s0) = Inl e" using tp by blast
  next
    assume "visit h = py_visit" and "\<not> path_exists (fs s') target_dir"
    then show "fst (acquire_package h (session_config sess) v s)
                   = Inl (HostError ''py.error.ENOENT'')"
      by (rule absent)
  next
    assume "visit h = py_visit"
      and "path_isdir (fs s') target_dir \<and>
               (\<forall>q \<in> fst ` set (fs s'). strict_prefix target_dir q \<longrightarrow>
                                       \<not> fnmatch ''*.tar.gz'' (last q))"
    then show "fst (acquire_package h (session_config sess) v s) = Inl StopIteration"
      using empty by blast
  qed
qed

theorem acquire_package_first_match_counterexample:
  "\<not> path_exists example_fs [''proj'', ''.tox'', ''.package''] \<and>
   fst (acquire_package quiet_host (session_config (example_session False)) (example_venv False)
          (example_state example_fs None)) = Inl (HostError ''py.error.ENOENT'') \<and>
   fst (tox_package quiet_host (example_session False) (example_venv False)
          (example_state example_fs None)) = Inl (HostError ''py.error.ENOENT'')"
  by code_simp

theorem acquire_package_first_match_witness:
  "fst (acquire_package example_host (session_config (example_session False)) (example_venv False)
          (example_state example_fs None))
     = Inr [''proj'', ''.tox'', ''.package'', ''demo-0.1.tar.gz''] \<and>
   \<not> skipsdist (session_config (example_session False)) \<and>
   package (example_state example_fs_built None) = None \<and>
   path_isdir example_fs_built [''proj'', ''.tox'', ''.package''] \<and>
   fst (acquire_package quiet_host (session_config (example_session False)) (example_venv False)
          (example_state example_fs_built None)) = Inl StopIteration \<and>
   fst (tox_package quiet_host (example_session False) (example_venv False)
          (example_state example_fs_built None)) = Inl StopIteration"
proof -
  define sess where "sess = example_session False"
  define v where "v = example_venv False"
  define s0 where "s0 = example_state example_fs None"
  define s1 where "s1 = example_state example_fs_built None"
  define target where "target = [''proj'', ''.tox'', ''.package'']"
  define steps where "steps h = and_then (on_fs (ensure_empty_dir h target)) (\<lambda>_.
                  and_then (tox_testenv_create h v ''buildpkg'') (\<lambda>_.
                  pcall h v [Str (pdm (config (envconfig v))), Str ''build'', Str ''--no-wheel'',
                             Str ''-d'', Path target]
                    (toxinidir (config (envconfig v))) ''buildpkg''))" for h
  have target: "target = toxworkdir (session_config sess) @ [isolated_build_env (session_config sess)]"
    by (simp add: target_def sess_def example_session_def example_config_def)
  have b1: "steps example_host s0 = (Inr (), snd (steps example_host s0))"
  proof -
    have "fst (steps example_host s0) = Inr ()"
      unfolding steps_def s0_def v_def target_def by code_simp
    then show ?thesis by (simp add: prod_eq_iff)
  qed
  define t2 where "t2 = snd (steps quiet_host s1)"
  have b2: "steps quiet_host s1 = (Inr (), t2)"
  proof -
    have "fst (steps quiet_host s1) = Inr ()"
      unfolding steps_def s1_def v_def target_def by code_simp
    then show ?thesis by (simp add: prod_eq_iff t2_def)
  qed
  have v1: "visit example_host target ''*.tar.gz'' (fs (snd (steps example_host s0)))
      = Inr [[''proj'', ''.tox'', ''.package'', ''demo-0.1.tar.gz'']]"
    unfolding steps_def s0_def v_def target_def by code_simp
  have pv: "visit quiet_host = py_visit"
    by (simp add: quiet_host_def example_host_def)
  have d2: "path_isdir (fs t2) target"
    unfolding t2_def steps_def s1_def v_def target_def by code_simp
  have n2: "\<forall>q \<in> fst ` set (fs t2).
              strict_prefix target q \<longrightarrow> \<not> fnmatch ''*.tar.gz'' (last q)"
    unfolding t2_def steps_def s1_def v_def target_def by code_simp
  have 1: "fst (acquire_package example_host (session_config sess) v s0)
      = Inr [''proj'', ''.tox'', ''.package'', ''demo-0.1.tar.gz'']"
    using acquire_package_first_match [OF target, of example_host v s0 "snd (steps example_host s0)"]
      b1 v1 unfolding steps_def by simp
  note inst = acquire_package_first_match [OF target b2 [unfolded steps_def]]
  have 2: "fst (acquire_package quiet_host (session_config sess) v s1) = Inl StopIteration"
    using inst [THEN conjunct2, THEN conjunct2] pv d2 n2 by blast
  have sd: "\<not> skipsdist (session_config sess)"
    by (simp add: sess_def example_session_def example_config_def)
  have np: "package s1 = None" by (simp add: s1_def example_state_def)
  have c: "clone_pdm_files quiet_host (fspath quiet_host (path v))
      (fspath quiet_host (toxinidir (config (envconfig v)))) (fs s1) = (Inr (), fs s1)"
    by (simp add: quiet_host_def example_host_def)
  have l: "lock_acquire quiet_host (toxworkdir (session_config sess)
      @ [isolated_build_env (session_config sess) @ ''.lock'']) (fs s1) = (Inr (), fs s1)"
    by (simp add: quiet_host_def example_host_def)
  have same: "s1 = s1\<lparr>fs := fs s1\<rparr>" by simp
  have 3: "fst (tox_package quiet_host sess v s1) = Inl StopIteration"
    using inst [THEN conjunct2, THEN conjunct1, THEN spec, of StopIteration] 2 sd np c l same
    by blast
  have dir: "path_isdir example_fs_built [''proj'', ''.tox'', ''.package'']"
    by code_simp
  show ?thesis
    using 1 2 3 sd np dir by (simp add: sess_def v_def s0_def s1_def)
qed

subsection \<open>Relocating the scripts\<close>



















text \<open>An entry whose name is a directory of the scripts directory goes into that directory.\<close>

lemma relocate_into_existing_directory:
  "relocate_scripts ''posix'' [''env'', ''lib'']
     [([], Dir), ([''env''], Dir), ([''env'', ''bin''], Dir), ([''env'', ''bin'', ''tool''], Dir),
      ([''env'', ''lib''], Dir), ([''env'', ''lib'', ''bin''], Dir),
      ([''env'', ''lib'', ''bin'', ''tool''], File ''#!python'')]
   = (Inr (),
      [([], Dir), ([''env''], Dir), ([''env'', ''bin''], Dir), ([''env'', ''bin'', ''tool''], Dir),
       ([''env'', ''lib''], Dir), ([''env'', ''lib'', ''bin''], Dir),
       ([''env'', ''bin'', ''tool'', ''tool''], File ''#!python'')])"
  by code_simp

end
